theory Spec2Isabelle
  imports Complex_Main "HOL-Library.Multiset"
begin

section \<open>VariantMap: a shallow embedding of \<open>dash_bio/component_factory/_variant.py\<close>\<close>

text \<open>
  Python floats are modelled as exact rationals (\<open>rat\<close>): every finite float is a
  rational, and the arithmetic of the source (\<open>/\<close>, \<open>math.ceil\<close>, \<open>round\<close>) is taken
  exactly. NaN and the infinities are outside the model; the concrete inputs used below
  stay away from the places where binary rounding could change a ceiling or a tie.
\<close>

subsection \<open>Exceptions\<close>

datatype error =
    KeyError
  | IndexError
  | ZeroDivisionError
  | TypeError
  | AttributeError
  | ValueError
  | ReError

subsection \<open>\<open>discrete_colorscale\<close>\<close>

text \<open>
  \<open>round(x, 3)\<close>: Python rounds to the nearest multiple of \<open>1/1000\<close>, a tie going to the
  even neighbour.
\<close>

definition round_half_even :: "rat \<Rightarrow> int" where
  "round_half_even y =
     (let f = \<lfloor>y\<rfloor>; d = y - of_int f
      in if d < 1 / 2 then f
         else if 1 / 2 < d then f + 1
         else if even f then f else f + 1)"

definition round3 :: "rat \<Rightarrow> rat" where
  "round3 x = of_int (round_half_even (x * 1000)) / 1000"

text \<open>
  \<open>markers = sorted(markers)\<close> followed by the list comprehension
  \<open>[round((v - markers[0]) / (markers[-1] - markers[0]), 3) for v in markers]\<close>.
  The body of the comprehension is not evaluated for an empty list, so an empty list of
  markers gives an empty \<open>norm_mark\<close>; otherwise the first element divides by
  \<open>markers[-1] - markers[0]\<close>, and a zero there raises \<open>ZeroDivisionError\<close>.
\<close>

definition norm_mark :: "rat list \<Rightarrow> error + rat list" where
  "norm_mark markers =
     (let ms = sort markers
      in if ms = [] then Inr []
         else if last ms - hd ms = 0 then Inl ZeroDivisionError
         else Inr (map (\<lambda>v. round3 ((v - hd ms) / (last ms - hd ms))) ms))"

text \<open>
  The loop \<open>for k in enumerate(colors)\<close>: at position \<open>k\<close> it reads \<open>norm_mark[k]\<close>,
  \<open>colors[k]\<close> and \<open>norm_mark[k + 1]\<close> and extends the result by two control points. A
  read past the end of \<open>norm_mark\<close> raises \<open>IndexError\<close>, and the exception leaves the
  function without a result.
\<close>

fun extend_colorscale ::
  "rat list \<Rightarrow> nat \<Rightarrow> string list \<Rightarrow> (rat \<times> string) list \<Rightarrow> error + (rat \<times> string) list"
where
  "extend_colorscale nm k [] dcolorscale = Inr dcolorscale"
| "extend_colorscale nm k (c # cs) dcolorscale =
     (if k + 1 < length nm
      then extend_colorscale nm (k + 1) cs (dcolorscale @ [(nm ! k, c), (nm ! (k + 1), c)])
      else Inl IndexError)"

definition discrete_colorscale :: "rat list \<Rightarrow> string list \<Rightarrow> error + (rat \<times> string) list" where
  "discrete_colorscale markers colors =
     (case norm_mark markers of
        Inl e \<Rightarrow> Inl e
      | Inr nm \<Rightarrow> extend_colorscale nm 0 colors [])"




subsection \<open>Tables\<close>

text \<open>
  A pandas DataFrame as the source uses it: a list of column names, and rows in order, each
  with its index label and its cells by column name. A cell is a number, a string or
  missing (NaN). A cell is only ever read under a column name that the table has; the
  lookup of a name that is not a column raises \<open>KeyError\<close>. The attribute \<open>metadata\<close>, set
  on the table by the caller, gives the default sample list (\<open>metadata['sample_names']\<close>).
\<close>

datatype cell = Num rat | Str string | NaN

type_synonym row = "int \<times> (string \<Rightarrow> cell)"

record dataframe =
  columns :: "string list"
  rows :: "row list"
  metadata_sample_names :: "string list"

text \<open>Boolean-mask indexing \<open>df[mask]\<close>, the mask computed row by row: a new table.\<close>

definition select_rows :: "(row \<Rightarrow> bool) \<Rightarrow> dataframe \<Rightarrow> dataframe" where
  "select_rows keep df = df\<lparr>rows := filter keep (rows df)\<rparr>"

text \<open>\<open>df[df[sample] == 0.0]\<close>\<close>

definition rows_eq_zero :: "string \<Rightarrow> dataframe \<Rightarrow> error + dataframe" where
  "rows_eq_zero sample df =
     (if sample \<in> set (columns df)
      then Inr (select_rows (\<lambda>r. snd r sample = Num 0) df)
      else Inl KeyError)"

text \<open>\<open>df[df[_filter] != '1']\<close>\<close>

definition rows_ne_one :: "string \<Rightarrow> dataframe \<Rightarrow> error + dataframe" where
  "rows_ne_one flt df =
     (if flt \<in> set (columns df)
      then Inr (select_rows (\<lambda>r. snd r flt \<noteq> Str ''1'') df)
      else Inl KeyError)"

text \<open>
  \<open>df.loc[labels, :]\<close> with a list of row labels: the rows carrying each label, in the
  order of the list; a label that no row carries raises \<open>KeyError\<close>. An empty list selects
  no rows and raises nothing.
\<close>

definition loc_rows :: "int list \<Rightarrow> dataframe \<Rightarrow> error + dataframe" where
  "loc_rows labels df =
     (if \<forall>l \<in> set labels. l \<in> fst ` set (rows df)
      then Inr (df\<lparr>rows := concat (map (\<lambda>l. filter (\<lambda>r. fst r = l) (rows df)) labels)\<rparr>)
      else Inl KeyError)"

text \<open>
  \<open>df[df[key].str.contains(pat)]\<close>. The regular-expression engine is not part of the
  repository: \<open>re_compile\<close> is a parameter, giving for a pattern its search predicate, or
  \<open>None\<close> where the pattern does not compile. The pattern itself may already have failed
  to build (\<open>TypeError\<close>). In the order of evaluation: the column lookup, the \<open>.str\<close>
  accessor (refused on a non-empty column without any string), the pattern, its
  compilation, and the mask, which pandas refuses when a cell that is not a string left
  a missing value in it.
\<close>

definition is_Str :: "cell \<Rightarrow> bool" where
  "is_Str c = (case c of Str _ \<Rightarrow> True | _ \<Rightarrow> False)"

definition str_contains ::
  "(string \<Rightarrow> (string \<Rightarrow> bool) option) \<Rightarrow> string \<Rightarrow> error + string \<Rightarrow> dataframe \<Rightarrow> error + dataframe"
where
  "str_contains re_compile key pat df =
     (if key \<notin> set (columns df) then Inl KeyError
      else if rows df \<noteq> [] \<and> (\<forall>r \<in> set (rows df). \<not> is_Str (snd r key)) then Inl AttributeError
      else case pat of
        Inl e \<Rightarrow> Inl e
      | Inr p \<Rightarrow>
         (case re_compile p of
            None \<Rightarrow> Inl ReError
          | Some search \<Rightarrow>
             if \<exists>r \<in> set (rows df). \<not> is_Str (snd r key) then Inl ValueError
             else Inr (select_rows (\<lambda>r. case snd r key of Str s \<Rightarrow> search s | _ \<Rightarrow> False) df)))"

text \<open>\<open>sep.join(xs)\<close>\<close>

fun join :: "string \<Rightarrow> string list \<Rightarrow> string" where
  "join sep [] = []"
| "join sep [x] = x"
| "join sep (x # y # ys) = x @ sep @ join sep (y # ys)"

subsection \<open>The annotation dictionary\<close>

text \<open>
  \<open>annotation\<close> is a dict from a key to a list: of strings, or of row labels under
  \<open>'index_list'\<close>. It is an association list in insertion order; \<open>None\<close> and the empty
  dict, both false in \<open>if annotation:\<close>, are the empty list.
\<close>

datatype annval = Strs "string list" | Idxs "int list"

fun truthy :: "annval \<Rightarrow> bool" where
  "truthy (Strs xs) = (xs \<noteq> [])"
| "truthy (Idxs xs) = (xs \<noteq> [])"

text \<open>\<open>'|'.join([x + ';' for x in annotation['Gene_name']])\<close>\<close>

fun gene_pattern :: "annval \<Rightarrow> error + string" where
  "gene_pattern (Strs xs) = Inr (join ''|'' (map (\<lambda>x. x @ '';'') xs))"
| "gene_pattern (Idxs xs) = (if xs = [] then Inr [] else Inl TypeError)"

text \<open>\<open>'|'.join(annotation[_key])\<close>\<close>

fun key_pattern :: "annval \<Rightarrow> error + string" where
  "key_pattern (Strs xs) = Inr (join ''|'' xs)"
| "key_pattern (Idxs xs) = (if xs = [] then Inr [] else Inl TypeError)"

text \<open>
  \<open>df.loc[annotation['index_list'], :]\<close>; the row labels of the table are integers, so a
  string in the list is a label that no row carries.
\<close>

fun loc_index_list :: "annval \<Rightarrow> dataframe \<Rightarrow> error + dataframe" where
  "loc_index_list (Idxs ls) df = loc_rows ls df"
| "loc_index_list (Strs xs) df = (if xs = [] then loc_rows [] df else Inl KeyError)"

text \<open>\<open>pd.concat([df_genes, df_indexes])\<close>: the rows of the first, then those of the second.\<close>

definition concat_frames :: "dataframe \<Rightarrow> dataframe \<Rightarrow> dataframe" where
  "concat_frames a b =
     a\<lparr>columns := columns a @ filter (\<lambda>c. c \<notin> set (columns a)) (columns b),
       rows := rows a @ rows b\<rparr>"

subsection \<open>Objects and references\<close>

text \<open>
  Tables are objects: a variable holds a reference, and \<open>df_new.loc[:, 'Group'] = ...\<close>
  changes the object it refers to, for every holder of a reference to it. The store is the
  list of the tables allocated so far and a reference is a position in it. A program
  takes the store and returns a value or the exception raised, with the store as it then
  is. References handed to a program are allocated (\<open>p < length h\<close>).
\<close>

type_synonym heap = "dataframe list"

type_synonym 'a prog = "heap \<Rightarrow> (error + 'a) \<times> heap"

definition unit_prog :: "'a \<Rightarrow> 'a prog" where
  "unit_prog x h = (Inr x, h)"

definition raise :: "error \<Rightarrow> 'a prog" where
  "raise e h = (Inl e, h)"

definition bind_prog :: "'a prog \<Rightarrow> ('a \<Rightarrow> 'b prog) \<Rightarrow> 'b prog" where
  "bind_prog m f h = (case m h of (Inl e, h') \<Rightarrow> (Inl e, h') | (Inr x, h') \<Rightarrow> f x h')"

definition lift_result :: "error + 'a \<Rightarrow> 'a prog" where
  "lift_result r h = (r, h)"

definition alloc :: "dataframe \<Rightarrow> nat prog" where
  "alloc df h = (Inr (length h), h @ [df])"

definition load :: "nat \<Rightarrow> dataframe prog" where
  "load p h = (Inr (h ! p), h)"

definition store :: "nat \<Rightarrow> dataframe \<Rightarrow> unit prog" where
  "store p df h = (Inr (), h[p := df])"

text \<open>
  An assignment \<open>df = f(df)\<close> whose right-hand side builds a new table from the one \<open>p\<close>
  refers to: the result is a fresh object, and the old one is left as it was.
\<close>

definition assign :: "(dataframe \<Rightarrow> error + dataframe) \<Rightarrow> nat \<Rightarrow> nat prog" where
  "assign f p = bind_prog (load p) (\<lambda>df. bind_prog (lift_result (f df)) alloc)"

subsection \<open>\<open>_VariantMap.__init__\<close>: subsetting\<close>

text \<open>
  Lines 185 to 203: the subset by gene name and by row index. With both lists present and
  non-empty the two selections are taken from the same table and concatenated; otherwise
  each non-empty one is applied in turn.
\<close>

definition subset_gene ::
  "(string \<Rightarrow> (string \<Rightarrow> bool) option) \<Rightarrow> annval \<Rightarrow> dataframe \<Rightarrow> error + dataframe"
where
  "subset_gene re_compile g df = str_contains re_compile ''Gene_name'' (gene_pattern g) df"

definition subset_gene_index ::
  "(string \<Rightarrow> (string \<Rightarrow> bool) option) \<Rightarrow> (string \<times> annval) list \<Rightarrow> nat \<Rightarrow> nat prog"
where
  "subset_gene_index re_compile annotation p =
     (if annotation = [] then unit_prog p
      else case (map_of annotation ''Gene_name'', map_of annotation ''index_list'') of
        (Some g, Some i) \<Rightarrow>
          if truthy g \<and> truthy i
          then bind_prog (assign (subset_gene re_compile g) p) (\<lambda>df_genes.
               bind_prog (assign (loc_index_list i) p) (\<lambda>df_indexes.
               bind_prog (load df_genes) (\<lambda>a.
               bind_prog (load df_indexes) (\<lambda>b.
               alloc (concat_frames a b)))))
          else bind_prog (if truthy g then assign (subset_gene re_compile g) p else unit_prog p) (\<lambda>p'.
               if truthy i then assign (loc_index_list i) p' else unit_prog p')
      | (g, i) \<Rightarrow>
          bind_prog (case g of
                       Some g' \<Rightarrow> if truthy g' then assign (subset_gene re_compile g') p else unit_prog p
                     | None \<Rightarrow> unit_prog p) (\<lambda>p'.
          case i of
            Some i' \<Rightarrow> if truthy i' then assign (loc_index_list i') p' else unit_prog p'
          | None \<Rightarrow> unit_prog p'))"

text \<open>
  Lines 205 to 212: every other key with a non-empty list narrows the table further. The
  loop runs over the dict in insertion order.
\<close>

fun subset_annotation ::
  "(string \<Rightarrow> (string \<Rightarrow> bool) option) \<Rightarrow> (string \<times> annval) list \<Rightarrow> nat \<Rightarrow> nat prog"
where
  "subset_annotation re_compile [] p = unit_prog p"
| "subset_annotation re_compile ((key, v) # rest) p =
     (if truthy v
      then if key = ''Gene_name'' \<or> key = ''index_list''
           then subset_annotation re_compile rest p
           else bind_prog (assign (str_contains re_compile key (key_pattern v)) p)
                  (subset_annotation re_compile rest)
      else subset_annotation re_compile rest p)"

text \<open>
  Lines 214 to 217: \<open>filter_sample\<close> (\<open>None\<close> is the empty list), one mask per sample.
\<close>

fun subset_sample :: "string list \<Rightarrow> nat \<Rightarrow> nat prog" where
  "subset_sample [] p = unit_prog p"
| "subset_sample (sample # rest) p = bind_prog (assign (rows_eq_zero sample) p) (subset_sample rest)"

text \<open>
  Lines 219 to 222: \<open>filter_file\<close> (\<open>None\<close> is the empty list), one mask per filter.
\<close>

fun subset_file :: "string list \<Rightarrow> nat \<Rightarrow> nat prog" where
  "subset_file [] p = unit_prog p"
| "subset_file (flt # rest) p = bind_prog (assign (rows_ne_one flt) p) (subset_file rest)"

text \<open>Lines 185 to 222 together, in the order of the source.\<close>

definition subset_all ::
  "(string \<Rightarrow> (string \<Rightarrow> bool) option) \<Rightarrow> (string \<times> annval) list \<Rightarrow>
   string list \<Rightarrow> string list \<Rightarrow> nat \<Rightarrow> nat prog"
where
  "subset_all re_compile annotation filter_sample filter_file p =
     bind_prog (subset_gene_index re_compile annotation p) (\<lambda>p1.
     bind_prog (subset_annotation re_compile annotation p1) (\<lambda>p2.
     bind_prog (subset_sample filter_sample p2) (\<lambda>p3.
     subset_file filter_file p3)))"

subsection \<open>\<open>_VariantMap.__init__\<close>: batching\<close>

text \<open>
  \<open>div = math.ceil(len(df_new) / entries_per_batch) + 0.001\<close> and
  \<open>batch_size = math.ceil(len(df_new) / div)\<close>; the caller of these has checked that
  \<open>entries_per_batch\<close> is not zero. \<open>div\<close> is an integer plus \<open>0.001\<close>, never zero.
\<close>

definition divisions :: "nat \<Rightarrow> rat \<Rightarrow> rat" where
  "divisions n entries_per_batch = of_int \<lceil>of_nat n / entries_per_batch\<rceil> + 1 / 1000"

definition batch_size :: "nat \<Rightarrow> rat \<Rightarrow> int" where
  "batch_size n entries_per_batch = \<lceil>of_nat n / divisions n entries_per_batch\<rceil>"

text \<open>
  \<open>np.divmod(np.arange(n), batch_size)[0] + 1\<close>: floor division of the positions; numpy
  gives \<open>0\<close> for an integer division by zero and raises nothing.
\<close>

definition group_numbers :: "nat \<Rightarrow> int \<Rightarrow> int list" where
  "group_numbers n bs = map (\<lambda>i. (if bs = 0 then 0 else int i div bs) + 1) [0..<n]"

text \<open>\<open>df_new.loc[:, 'Group'] = values\<close>: the column is added, or overwritten if present.\<close>

definition set_group :: "int list \<Rightarrow> dataframe \<Rightarrow> dataframe" where
  "set_group gs df =
     df\<lparr>columns := (if ''Group'' \<in> set (columns df) then columns df else columns df @ [''Group'']),
        rows := map (\<lambda>(r, g). (fst r, (snd r)(''Group'' := Num (of_int g)))) (zip (rows df) gs)\<rparr>"

text \<open>\<open>int(batch_no_for_display)\<close>: truncation toward zero.\<close>

definition py_int :: "rat \<Rightarrow> int" where
  "py_int x = (if 0 \<le> x then \<lfloor>x\<rfloor> else \<lceil>x\<rceil>)"

text \<open>\<open>df_new[df_new['Group'].isin([k])]\<close>\<close>

definition isin_group :: "int \<Rightarrow> dataframe \<Rightarrow> error + dataframe" where
  "isin_group k df =
     (if ''Group'' \<in> set (columns df)
      then Inr (select_rows (\<lambda>r. snd r ''Group'' = Num (of_int k)) df)
      else Inl KeyError)"

text \<open>
  \<open>df_new.T.loc[labels, :].values.tolist()\<close>: the rows of the transposed table are the
  columns of the table, so the result has one list per label, holding that column's cells;
  a label that is not a column raises \<open>KeyError\<close>, and an empty list of labels gives the
  empty list.
\<close>

definition loc_T :: "string list \<Rightarrow> dataframe \<Rightarrow> error + cell list list" where
  "loc_T labels df =
     (if \<forall>l \<in> set labels. l \<in> set (columns df)
      then Inr (map (\<lambda>l. map (\<lambda>r. snd r l) (rows df)) labels)
      else Inl KeyError)"

text \<open>
  Lines 258 to 267: the labels before \<open>names.reverse()\<close>; \<open>sample_names[name]\<close> with the
  identifier kept on \<open>KeyError\<close>.
\<close>

definition resolve_names :: "string list \<Rightarrow> (string \<rightharpoonup> string) option \<Rightarrow> string list" where
  "resolve_names sample_order sample_names =
     (case sample_names of
        None \<Rightarrow> sample_order
      | Some m \<Rightarrow> map (\<lambda>name. case m name of Some v \<Rightarrow> v | None \<Rightarrow> name) sample_order)"

subsection \<open>\<open>_VariantMap.__init__\<close> and \<open>VariantMap\<close>\<close>

text \<open>The attributes that \<open>figure\<close> hands to the plotting library.\<close>

record variantmap =
  dcolorsc :: "(rat \<times> string) list"
  vm_batch_size :: int
  z :: "cell list list"
  hover :: "cell list list"
  names :: "string list"

definition markers :: "rat list" where
  "markers = [0, 2 / 10, 4 / 10, 6 / 10, 8 / 10, 1, 12 / 10, 14 / 10]"

text \<open>
  Line 228, \<open>[x for x in samples if x in df_new.columns]\<close>: the samples that are columns
  of the table, in the given order.
\<close>

definition actual_sample_order :: "string list \<Rightarrow> dataframe \<Rightarrow> string list" where
  "actual_sample_order samples df = filter (\<lambda>x. x \<in> set (columns df)) samples"

text \<open>
  Lines 224 to 271, from the copy of the subset table to the labels. \<open>df.copy()\<close> is a
  fresh object with the contents of \<open>df\<close>; the \<open>'Group'\<close> column is written into that
  object.
\<close>

definition build_matrices ::
  "rat \<Rightarrow> rat \<Rightarrow> string list \<Rightarrow> (string \<rightharpoonup> string) option \<Rightarrow> (rat \<times> string) list \<Rightarrow> nat \<Rightarrow>
   variantmap prog"
where
  "build_matrices entries_per_batch batch_no_for_display samples sample_names dcs df =
     bind_prog (assign Inr df) (\<lambda>df_new.
     bind_prog (load df_new) (\<lambda>t.
     let sample_order = actual_sample_order samples t;
         n = length (rows t)
     in if entries_per_batch = 0 then raise ZeroDivisionError
        else
     let bs = batch_size n entries_per_batch
     in
     bind_prog (store df_new (set_group (group_numbers n bs) t)) (\<lambda>_.
     bind_prog (assign (isin_group (py_int batch_no_for_display)) df_new) (\<lambda>df_batch.
     bind_prog (load df_batch) (\<lambda>tb.
     bind_prog (lift_result (loc_T sample_order tb)) (\<lambda>zs.
     bind_prog (lift_result (loc_T (map (\<lambda>x. ''Hover_'' @ x) sample_order) tb)) (\<lambda>hover_text.
     unit_prog \<lparr>dcolorsc = dcs, vm_batch_size = bs, z = rev zs, hover = rev hover_text,
                names = rev (resolve_names sample_order sample_names)\<rparr>)))))))"

definition VariantMap_init ::
  "(string \<Rightarrow> (string \<Rightarrow> bool) option) \<Rightarrow> nat \<Rightarrow> rat \<Rightarrow> rat \<Rightarrow> (string \<times> annval) list \<Rightarrow>
   string list \<Rightarrow> string list \<Rightarrow> string list \<Rightarrow> (string \<rightharpoonup> string) option \<Rightarrow> string list \<Rightarrow>
   variantmap prog"
where
  "VariantMap_init re_compile df entries_per_batch batch_no_for_display annotation
     filter_sample filter_file samples sample_names colors =
     bind_prog (lift_result (discrete_colorscale markers colors)) (\<lambda>dcs.
     bind_prog (subset_all re_compile annotation filter_sample filter_file df)
       (build_matrices entries_per_batch batch_no_for_display samples sample_names dcs))"

text \<open>
  \<open>VariantMap\<close>: the sample list is \<open>sample_order\<close> or, without one, the metadata's; the
  colours are the caller's, by class, with the default on \<open>KeyError\<close>.
\<close>

definition sv_classes :: "string list" where
  "sv_classes = [''NIL'', ''DEL'', ''INV'', ''INS'', ''BND'', ''DUP'', ''UKN'']"

definition color_dict :: "(string \<times> string) list" where
  "color_dict =
     [(''DEL'', ''#4daf4a''), (''INV'', ''#377eb8''), (''INS'', ''#e41a1c''), (''BND'', ''#984ea3''),
      (''DUP'', ''#ff7f00''), (''UKN'', ''#000000''), (''NIL'', ''#d1d9e0'')]"

fun color_lookup :: "(string \<rightharpoonup> string) option \<Rightarrow> string list \<Rightarrow> error + string list" where
  "color_lookup color_list [] = Inr []"
| "color_lookup color_list (c # cs) =
     (case (case color_list of None \<Rightarrow> None | Some m \<Rightarrow> m c) of
        Some v \<Rightarrow> map_sum id ((#) v) (color_lookup color_list cs)
      | None \<Rightarrow>
         (case map_of color_dict c of
            None \<Rightarrow> Inl KeyError
          | Some v \<Rightarrow> map_sum id ((#) v) (color_lookup color_list cs)))"

definition display_samples :: "string list option \<Rightarrow> dataframe \<Rightarrow> string list" where
  "display_samples sample_order dataframe =
     (case sample_order of None \<Rightarrow> metadata_sample_names dataframe | Some so \<Rightarrow> so)"

definition VariantMap ::
  "(string \<Rightarrow> (string \<Rightarrow> bool) option) \<Rightarrow> nat \<Rightarrow> rat \<Rightarrow> rat \<Rightarrow> (string \<times> annval) list \<Rightarrow>
   string list \<Rightarrow> string list \<Rightarrow> string list option \<Rightarrow> (string \<rightharpoonup> string) option \<Rightarrow>
   (string \<rightharpoonup> string) option \<Rightarrow> variantmap prog"
where
  "VariantMap re_compile dataframe entries_per_batch batch_no annotation filter_sample filter_file
     sample_order sample_names color_list =
     bind_prog (load dataframe) (\<lambda>t.
     let samples = display_samples sample_order t
     in bind_prog (lift_result (color_lookup color_list sv_classes)) (\<lambda>colors.
        VariantMap_init re_compile dataframe entries_per_batch batch_no annotation
          filter_sample filter_file samples sample_names colors))"

subsection \<open>A literal pattern engine\<close>

text \<open>
  To run the model on concrete tables: the search of a regular expression that is an
  alternation of literal strings, which is what the source's patterns are when the
  annotation values hold no special character. \<open>a|b\<close> is found in \<open>s\<close> when \<open>a\<close> or \<open>b\<close> is
  a substring of \<open>s\<close>.
\<close>

fun split_bar :: "string \<Rightarrow> string list" where
  "split_bar [] = [[]]"
| "split_bar (c # cs) =
     (if c = CHR ''|'' then [] # split_bar cs
      else case split_bar cs of [] \<Rightarrow> [[c]] | w # ws \<Rightarrow> (c # w) # ws)"

fun starts_with :: "string \<Rightarrow> string \<Rightarrow> bool" where
  "starts_with [] s = True"
| "starts_with (a # as) [] = False"
| "starts_with (a # as) (c # cs) = (a = c \<and> starts_with as cs)"

fun has_substring :: "string \<Rightarrow> string \<Rightarrow> bool" where
  "has_substring a [] = (a = [])"
| "has_substring a (c # cs) = (starts_with a (c # cs) \<or> has_substring a cs)"

definition literal_search :: "string \<Rightarrow> (string \<Rightarrow> bool) option" where
  "literal_search pat = Some (\<lambda>s. \<exists>a \<in> set (split_bar pat). has_substring a s)"

subsection \<open>Notions of the specification and example inputs\<close>


text \<open>
  The sample filter as the specification words it: a row is dropped when its value under
  a listed sample is \<open>0.0\<close>, and kept otherwise.
\<close>

definition drop_zero_spec :: "string list \<Rightarrow> dataframe \<Rightarrow> dataframe" where
  "drop_zero_spec filter_sample df =
     select_rows (\<lambda>r. \<forall>s \<in> set filter_sample. snd r s \<noteq> Num 0) df"

text \<open>
  A program extends the store when every object allocated before is as it was and the
  reference it returns is allocated.
\<close>

definition extends :: "heap \<Rightarrow> (error + nat) \<times> heap \<Rightarrow> bool" where
  "extends h rh =
     (take (length h) (snd rh) = h \<and>
      (case fst rh of Inr p' \<Rightarrow> p' < length (snd rh) | Inl _ \<Rightarrow> True))"

text \<open>
  A table of ten variants and two samples, with the columns the source reads; the gene
  \<open>GENE1\<close> is named in rows 2 and 5.
\<close>

definition example_row :: "int \<Rightarrow> string \<Rightarrow> rat \<Rightarrow> rat \<Rightarrow> row" where
  "example_row i g a b =
     (i, (\<lambda>_. NaN)(''Gene_name'' := Str g, ''S1'' := Num a, ''S2'' := Num b,
                    ''Hover_S1'' := Str ''h1'', ''Hover_S2'' := Str ''h2'', ''Filter1'' := Str ''0''))"

definition example_table :: dataframe where
  "example_table =
     \<lparr>columns = [''Gene_name'', ''S1'', ''S2'', ''Hover_S1'', ''Hover_S2'', ''Filter1''],
      rows = [example_row 0 ''A;'' 0 (1 / 5), example_row 1 ''B;'' (2 / 5) 0,
              example_row 2 ''GENE1;X;'' 0 0, example_row 3 ''C;'' 1 0,
              example_row 4 ''GENE10;'' (1 / 5) 0, example_row 5 ''Y;GENE1;'' (3 / 5) (1 / 5),
              example_row 6 ''D;'' 0 0, example_row 7 ''E;'' (4 / 5) 0,
              example_row 8 ''F;'' 0 (2 / 5), example_row 9 ''G;'' (2 / 5) (2 / 5)],
      metadata_sample_names = [''S1'', ''S2'']\<rparr>"

definition example_annotation :: "(string \<times> annval) list" where
  "example_annotation = [(''Gene_name'', Strs [''GENE1'']), (''index_list'', Idxs [5, 9])]"

section \<open>Properties\<close>

subsection \<open>The colour scale\<close>

lemma sort_eq_of_mset: "mset xs = mset ys \<Longrightarrow> sort xs = sort (ys::rat list)"
  by (metis properties_for_sort sorted_sort mset_sort)

lemma extend_colorscale_ok:
  "k + length cs + 1 \<le> length nm \<Longrightarrow>
   extend_colorscale nm k cs acc =
     Inr (acc @ concat (map (\<lambda>i. [(nm ! (k + i), cs ! i), (nm ! (k + i + 1), cs ! i)]) [0..<length cs]))"
proof (induction cs arbitrary: k acc)
  case Nil
  then show ?case by simp
next
  case (Cons c cs)
  have "[0..<length (c # cs)] = 0 # map Suc [0..<length cs]"
    by (simp add: upt_conv_Cons map_Suc_upt del: upt_Suc)
  with Cons.prems Cons.IH [of "k + 1"] show ?case by (simp add: comp_def del: upt_Suc)
qed



lemma dcolorsc_ok:
  assumes "length colors = 7"
  shows "\<exists>d. discrete_colorscale markers colors = Inr d"
proof -
  have "\<exists>nm. norm_mark markers = Inr nm \<and> length nm = 8"
    by (simp add: norm_mark_def markers_def Let_def)
  then obtain nm where nm: "norm_mark markers = Inr nm" "length nm = 8" by blast
  have "0 + length colors + 1 \<le> length nm" using assms nm by simp
  from extend_colorscale_ok [OF this, of "[]"] nm show ?thesis
    by (simp add: discrete_colorscale_def)
qed




subsection \<open>Running programs on the store\<close>

lemma assign_run:
  "assign f p h = (case f (h ! p) of Inl e \<Rightarrow> (Inl e, h) | Inr d \<Rightarrow> (Inr (length h), h @ [d]))"
  by (simp add: assign_def bind_prog_def load_def lift_result_def alloc_def split: sum.splits)

lemma bind_load: "bind_prog (load p) f h = f (h ! p) h"
  by (simp add: bind_prog_def load_def)

lemma bind_lift: "bind_prog (lift_result r) f h = (case r of Inl e \<Rightarrow> (Inl e, h) | Inr x \<Rightarrow> f x h)"
  by (simp add: bind_prog_def lift_result_def split: sum.splits)

lemma bind_unit: "bind_prog (unit_prog x) f h = f x h"
  by (simp add: bind_prog_def unit_prog_def)

lemma extends_unit: "p < length h \<Longrightarrow> extends h (unit_prog p h)"
  by (simp add: extends_def unit_prog_def)

lemma extends_assign: "extends h (assign f p h)"
  by (simp add: extends_def assign_run split: sum.splits)

lemma extends_alloc: "extends h (alloc d h)"
  by (simp add: extends_def alloc_def)

lemma extends_bind:
  assumes "extends h (m h)"
    and "\<And>p' h'. m h = (Inr p', h') \<Longrightarrow> p' < length h' \<Longrightarrow> extends h' (f p' h')"
  shows "extends h (bind_prog m f h)"
proof (cases "m h")
  case (Pair r h')
  show ?thesis
  proof (cases r)
    case (Inl e)
    with Pair assms(1) show ?thesis by (simp add: bind_prog_def extends_def)
  next
    case (Inr p')
    with Pair assms(1) have 1: "take (length h) h' = h" and 2: "p' < length h'"
      by (simp_all add: extends_def)
    from assms(2) [OF _ 2] Pair Inr have 3: "extends h' (f p' h')" by simp
    have "length (take (length h) h') = min (length h') (length h)" by simp
    with 1 have le: "length h \<le> length h'" by simp
    from 3 have 4: "take (length h') (snd (f p' h')) = h'" by (simp add: extends_def)
    have "take (length h) (snd (f p' h')) = take (length h) (take (length h') (snd (f p' h')))"
      using le by (simp add: min_def)
    with 4 1 have "take (length h) (snd (f p' h')) = h" by simp
    with 3 Pair Inr show ?thesis by (simp add: bind_prog_def extends_def)
  qed
qed

lemma extends_subset_sample: "p < length h \<Longrightarrow> extends h (subset_sample fs p h)"
proof (induction fs arbitrary: p h)
  case Nil
  then show ?case by (simp add: extends_unit)
next
  case (Cons s fs)
  show ?case by (simp add: extends_bind extends_assign Cons.IH)
qed

lemma extends_subset_file: "p < length h \<Longrightarrow> extends h (subset_file ff p h)"
proof (induction ff arbitrary: p h)
  case Nil
  then show ?case by (simp add: extends_unit)
next
  case (Cons s ff)
  show ?case by (simp add: extends_bind extends_assign Cons.IH)
qed

lemma extends_subset_annotation: "p < length h \<Longrightarrow> extends h (subset_annotation re ann p h)"
proof (induction ann arbitrary: p h)
  case Nil
  then show ?case by (simp add: extends_unit)
next
  case (Cons kv ann)
  obtain k v where kv: "kv = (k, v)" by (cases kv)
  show ?case using Cons.prems by (simp add: kv extends_bind extends_assign Cons.IH)
qed

lemma extends_subset_gene_index: "p < length h \<Longrightarrow> extends h (subset_gene_index re ann p h)"
  unfolding subset_gene_index_def
  by (auto simp: bind_load extends_unit extends_assign extends_alloc
           intro!: extends_bind split: option.splits)

lemma extends_subset_all: "p < length h \<Longrightarrow> extends h (subset_all re ann fs ff p h)"
  unfolding subset_all_def
  by (intro extends_bind extends_subset_gene_index extends_subset_annotation
        extends_subset_sample extends_subset_file)

lemma take_take_le:
  assumes "take (length h) h1 = h" "take (length h1) h2 = h1"
  shows "take (length h) h2 = h"
proof -
  have "length (take (length h) h1) = min (length h1) (length h)" by simp
  with assms(1) have le: "length h \<le> length h1" by simp
  have "take (length h) h2 = take (length h) (take (length h1) h2)"
    using le by (simp add: min_def)
  with assms show ?thesis by simp
qed

lemma bind_assign:
  "bind_prog (assign f p) g h =
     (case f (h ! p) of Inl e \<Rightarrow> (Inl e, h) | Inr d \<Rightarrow> g (length h) (h @ [d]))"
  by (simp add: assign_run bind_prog_def split: sum.splits)

lemma bind_run: "m h = (Inr x, h') \<Longrightarrow> bind_prog m f h = f x h'"
  by (simp add: bind_prog_def)

lemma bind_err: "m h = (Inl e, h') \<Longrightarrow> bind_prog m f h = (Inl e, h')"
  by (simp add: bind_prog_def)

lemma isin_set_group_cols: "''Group'' \<in> set (columns (set_group gs t))"
  by (simp add: set_group_def)

lemma bind_store: "bind_prog (store p d) f h = f () (h[p := d])"
  by (simp add: bind_prog_def store_def)

lemma build_matrices_heap:
  "take (length h1) (snd (build_matrices e b samples sn dcs p h1)) = h1"
  by (simp add: build_matrices_def bind_assign bind_load bind_lift bind_store unit_prog_def raise_def
        Let_def isin_group_def isin_set_group_cols split: sum.splits)

lemma build_matrices_run:
  assumes "e \<noteq> 0"
  shows "fst (build_matrices e b samples sn dcs p h1) =
     (let t = h1 ! p;
          so = actual_sample_order samples t;
          n = length (rows t);
          bs = batch_size n e;
          tb = select_rows (\<lambda>r. snd r ''Group'' = Num (of_int (py_int b)))
                 (set_group (group_numbers n bs) t)
      in case loc_T so tb of
           Inl x \<Rightarrow> Inl x
         | Inr zs \<Rightarrow>
            (case loc_T (map (\<lambda>x. ''Hover_'' @ x) so) tb of
               Inl x \<Rightarrow> Inl x
             | Inr ht \<Rightarrow> Inr \<lparr>dcolorsc = dcs, vm_batch_size = bs, z = rev zs, hover = rev ht,
                             names = rev (resolve_names so sn)\<rparr>))"
  using assms
  by (simp add: build_matrices_def bind_assign bind_load bind_lift bind_store unit_prog_def
        Let_def isin_group_def isin_set_group_cols nth_append split: sum.splits)

lemma init_heap:
  assumes "a < length h"
  shows "take (length h) (snd (VariantMap_init re a e b ann fs ff samples sn colors h)) = h"
proof (cases "discrete_colorscale markers colors")
  case (Inl x)
  then show ?thesis by (simp add: VariantMap_init_def bind_lift)
next
  case (Inr dcs)
  obtain r h1 where s: "subset_all re ann fs ff a h = (r, h1)" by (cases "subset_all re ann fs ff a h")
  from extends_subset_all [OF assms, of re ann fs ff] s have t1: "take (length h) h1 = h"
    by (simp add: extends_def)
  show ?thesis
  proof (cases r)
    case (Inl x)
    with Inr s t1 show ?thesis by (simp add: VariantMap_init_def bind_lift bind_err)
  next
    case p: (Inr p)
    have "take (length h) (snd (build_matrices e b samples sn dcs p h1)) = h"
      using t1 build_matrices_heap by (rule take_take_le)
    with Inr s p show ?thesis by (simp add: VariantMap_init_def bind_lift bind_run)
  qed
qed

lemma VariantMap_heap:
  assumes "a < length h"
  shows "take (length h) (snd (VariantMap re a e b ann fs ff so sn cl h)) = h"
  using init_heap [OF assms]
  by (simp add: VariantMap_def bind_load bind_lift Let_def split: sum.splits)

lemma color_lookup_ok:
  "\<forall>c \<in> set cs. map_of color_dict c \<noteq> None \<Longrightarrow>
   \<exists>r. color_lookup cl cs = Inr r \<and> length r = length cs"
  by (induction cs) (auto split: option.splits)

lemma colors_ok: "\<exists>r. color_lookup cl sv_classes = Inr r \<and> length r = 7"
proof -
  have "\<forall>c \<in> set sv_classes. map_of color_dict c \<noteq> None"
    by (simp add: sv_classes_def color_dict_def)
  from color_lookup_ok [OF this, of cl]
  obtain r where "color_lookup cl sv_classes = Inr r" "length r = length sv_classes" by blast
  moreover have "length sv_classes = 7" by (simp add: sv_classes_def)
  ultimately show ?thesis by simp
qed

lemma VariantMap_fst:
  assumes "subset_all re ann fs ff a h = (Inr p, h1)"
  shows "\<exists>dcs. fst (VariantMap re a e b ann fs ff so sn cl h) =
     fst (build_matrices e b (display_samples so (h ! a))
            sn dcs p h1)"
proof -
  obtain colors where c: "color_lookup cl sv_classes = Inr colors" "length colors = 7"
    using colors_ok by blast
  obtain d where d: "discrete_colorscale markers colors = Inr d"
    using dcolorsc_ok [OF c(2)] by blast
  have "fst (VariantMap re a e b ann fs ff so sn cl h) =
     fst (build_matrices e b (display_samples so (h ! a))
            sn d p h1)"
    using c d assms
    by (simp add: VariantMap_def VariantMap_init_def bind_load bind_lift bind_run Let_def)
  then show ?thesis by blast
qed

subsection \<open>Subsetting and batching\<close>

lemma select_rows_True: "select_rows (\<lambda>r. True) df = df"
  by (simp add: select_rows_def)

lemma select_rows_twice:
  "select_rows Q (select_rows P df) = select_rows (\<lambda>r. P r \<and> Q r) df"
  by (simp add: select_rows_def)

lemma columns_select_rows: "columns (select_rows P df) = columns df"
  by (simp add: select_rows_def)

lemma subset_sample_run:
  "p < length h \<Longrightarrow> set fs \<subseteq> set (columns (h ! p)) \<Longrightarrow>
   \<exists>p' h'. subset_sample fs p h = (Inr p', h') \<and> p' < length h' \<and>
     h' ! p' = select_rows (\<lambda>r. \<forall>s \<in> set fs. snd r s = Num 0) (h ! p)"
proof (induction fs arbitrary: p h)
  case Nil
  then show ?case by (simp add: unit_prog_def select_rows_True)
next
  case (Cons s fs)
  let ?d = "select_rows (\<lambda>r. snd r s = Num 0) (h ! p)"
  have step: "subset_sample (s # fs) p h = subset_sample fs (length h) (h @ [?d])"
    using Cons.prems by (simp add: bind_assign rows_eq_zero_def)
  have "set fs \<subseteq> set (columns ((h @ [?d]) ! length h))"
    using Cons.prems by (simp add: columns_select_rows)
  from Cons.IH [of "length h" "h @ [?d]", OF _ this]
  obtain p' h' where r: "subset_sample fs (length h) (h @ [?d]) = (Inr p', h')" "p' < length h'"
    "h' ! p' = select_rows (\<lambda>r. \<forall>s \<in> set fs. snd r s = Num 0) ?d"
    by auto
  have "select_rows (\<lambda>r. \<forall>s \<in> set fs. snd r s = Num 0) ?d =
        select_rows (\<lambda>r. \<forall>x \<in> set (s # fs). snd r x = Num 0) (h ! p)"
    by (simp add: select_rows_twice)
  with r step show ?case by simp
qed






lemma subset_all_none: "subset_all re [] [] [] p h = (Inr p, h)"
  by (simp add: subset_all_def subset_gene_index_def bind_unit unit_prog_def)




lemma loc_T_nil: "loc_T [] tb = Inr []"
  by (simp add: loc_T_def)

lemma resolve_names_nil: "resolve_names [] sn = []"
  by (simp add: resolve_names_def split: option.splits)

lemma resolve_names_map:
  "resolve_names so sn =
     map (\<lambda>s. case (case sn of None \<Rightarrow> None | Some m \<Rightarrow> m s) of Some v \<Rightarrow> v | None \<Rightarrow> s) so"
  by (simp add: resolve_names_def split: option.splits)

lemma build_matrices_names:
  assumes "fst (build_matrices e b samples sn dcs p h1) = Inr vm"
  shows "names vm = rev (resolve_names (actual_sample_order samples (h1 ! p)) sn)"
proof (cases "e = 0")
  case True
  with assms show ?thesis
    by (simp add: build_matrices_def bind_assign bind_load raise_def Let_def)
next
  case False
  from assms show ?thesis
    unfolding build_matrices_run [OF False] Let_def
    by (auto split: sum.splits)
qed




section \<open>The claims\<close>

text \<open>
  C1, as amended. For every table and every list \<open>filter_sample\<close> of sample identifiers
  that are columns of it, the sample-filter step keeps exactly the rows whose value under
  every listed sample equals the number \<open>0.0\<close>, in their order, and drops all other rows;
  with several identifiers the filters compose by intersection. The columns are unchanged.
\<close>

theorem sample_filter_keeps_zero_rows:
  assumes "p < length h" and "set filter_sample \<subseteq> set (columns (h ! p))"
  shows "\<exists>p' h'. subset_sample filter_sample p h = (Inr p', h') \<and> p' < length h' \<and>
           rows (h' ! p') = filter (\<lambda>r. \<forall>s \<in> set filter_sample. snd r s = Num 0) (rows (h ! p)) \<and>
           columns (h' ! p') = columns (h ! p)"
proof -
  from subset_sample_run [OF assms]
  obtain p' h' where "subset_sample filter_sample p h = (Inr p', h')" "p' < length h'"
    "h' ! p' = select_rows (\<lambda>r. \<forall>s \<in> set filter_sample. snd r s = Num 0) (h ! p)"
    by blast
  then show ?thesis by (simp add: select_rows_def)
qed

text \<open>The theorem at the example table and the sample \<open>S1\<close>: rows 0, 2, 6 and 8 remain.\<close>

theorem sample_filter_keeps_zero_rows_witness:
  "(0::nat) < length [example_table] \<and> set [''S1''] \<subseteq> set (columns ([example_table] ! 0)) \<and>
   (\<exists>p' h'. subset_sample [''S1''] 0 [example_table] = (Inr p', h') \<and>
      map fst (rows (h' ! p')) = [0, 2, 6, 8])"
proof -
  have a: "(0::nat) < length [example_table]" by simp
  have b: "set [''S1''] \<subseteq> set (columns ([example_table] ! 0))" by (simp add: example_table_def)
  have c: "map fst (filter (\<lambda>r. \<forall>s \<in> set [''S1'']. snd r s = Num 0) (rows ([example_table] ! 0))) =
           [0, 2, 6, 8]"
    by (simp add: example_table_def example_row_def)
  from sample_filter_keeps_zero_rows [OF a b] a b c show ?thesis by auto
qed

text \<open>
  C1 as the specification states it (rows with the value \<open>0.0\<close> are dropped, all others
  kept) fails: on the example table the step keeps rows 0, 2, 6 and 8, the rows whose \<open>S1\<close>
  is \<open>0.0\<close>, where the specification keeps rows 1, 3, 4, 5, 7 and 9.
\<close>

theorem sample_filter_drop_zero_counterexample:
  "fst (subset_sample [''S1''] 0 [example_table]) = Inr 1 \<and>
   map fst (rows (snd (subset_sample [''S1''] 0 [example_table]) ! 1)) = [0, 2, 6, 8] \<and>
   map fst (rows (drop_zero_spec [''S1''] example_table)) = [1, 3, 4, 5, 7, 9] \<and>
   snd (subset_sample [''S1''] 0 [example_table]) ! 1 \<noteq> drop_zero_spec [''S1''] example_table"
proof -
  have 1: "fst (subset_sample [''S1''] 0 [example_table]) = Inr 1" by code_simp
  have 2: "map fst (rows (snd (subset_sample [''S1''] 0 [example_table]) ! 1)) = [0, 2, 6, 8]"
    by code_simp
  have 3: "map fst (rows (drop_zero_spec [''S1''] example_table)) = [1, 3, 4, 5, 7, 9]"
    by code_simp
  from 2 3 have "snd (subset_sample [''S1''] 0 [example_table]) ! 1 \<noteq>
      drop_zero_spec [''S1''] example_table"
    by auto
  with 1 2 3 show ?thesis by simp
qed

text \<open>
  C2, at a failing input: 2500 rows and \<open>entries_per_batch = 2500\<close>, the default. Then
  \<open>ceil(n / e) = 1\<close>, but \<open>batch_size\<close> is 2498 and the rows at positions 2498 and 2499
  are given group number 2, so batch 1 alone does not hold every row.
\<close>

theorem default_batch_misses_rows:
  "\<lceil>(2500 :: rat) / 2500\<rceil> = 1 \<and> batch_size 2500 2500 = 2498 \<and>
   group_numbers 2500 (batch_size 2500 2500) ! 2498 = 2 \<and>
   group_numbers 2500 (batch_size 2500 2500) ! 2499 = 2"
proof -
  have d: "divisions 2500 2500 = 1001 / 1000" by (simp add: divisions_def)
  have "\<lceil>(2500::rat) / (1001 / 1000)\<rceil> = 2498" by (rule ceiling_unique) simp_all
  then have b: "batch_size 2500 2500 = 2498" unfolding batch_size_def d by simp
  then show ?thesis by (simp add: group_numbers_def)
qed





text \<open>
  C5, as amended. When the resolved sample order is empty, the indexing downstream raises
  nothing: if the subsetting steps succeed and \<open>entries_per_batch\<close> is not zero, the build
  returns a result whose class-code matrix, hover matrix and label list are empty.
\<close>

theorem empty_sample_order_gives_empty_result:
  assumes sub: "subset_all re_compile annotation filter_sample filter_file df h = (Inr p, h1)"
    and e: "entries_per_batch \<noteq> 0"
    and none: "actual_sample_order (display_samples sample_order (h ! df)) (h1 ! p) = []"
  shows "\<exists>vm. fst (VariantMap re_compile df entries_per_batch batch_no annotation filter_sample
                    filter_file sample_order sample_names color_list h) = Inr vm \<and>
           z vm = [] \<and> hover vm = [] \<and> names vm = []"
proof -
  from VariantMap_fst [OF sub]
  obtain dcs where run: "fst (VariantMap re_compile df entries_per_batch batch_no annotation
        filter_sample filter_file sample_order sample_names color_list h) =
      fst (build_matrices entries_per_batch batch_no (display_samples sample_order (h ! df))
             sample_names dcs p h1)"
    by blast
  show ?thesis
    unfolding run build_matrices_run [OF e] Let_def none
    by (simp add: loc_T_nil resolve_names_nil)
qed

text \<open>The theorem at the example table and the sample list \<open>["Q"]\<close>, not a column of it.\<close>

theorem empty_sample_order_gives_empty_result_witness:
  "\<exists>vm. fst (VariantMap literal_search 0 2500 1 [] [] [] (Some [''Q'']) None None [example_table]) =
          Inr vm \<and> z vm = [] \<and> hover vm = [] \<and> names vm = []"
proof -
  have 1: "subset_all literal_search [] [] [] 0 [example_table] = (Inr 0, [example_table])"
    by (rule subset_all_none)
  have 2: "(2500 :: rat) \<noteq> 0" by simp
  have 3: "actual_sample_order (display_samples (Some [''Q'']) ([example_table] ! 0))
             ([example_table] ! 0) = []"
    by (simp add: actual_sample_order_def display_samples_def example_table_def)
  from empty_sample_order_gives_empty_result [OF 1 2 3] show ?thesis .
qed

text \<open>
  C5 as the specification states it (a \<open>KeyError\<close> when the resolved sample order is empty)
  fails: for the example table and the sample list \<open>["Q"]\<close> the build returns a result,
  with empty matrices and no labels.
\<close>

theorem empty_sample_order_counterexample:
  "actual_sample_order (display_samples (Some [''Q'']) example_table) example_table = [] \<and>
   map_sum id z
     (fst (VariantMap literal_search 0 2500 1 [] [] [] (Some [''Q'']) None None [example_table])) =
   Inr [] \<and>
   map_sum id hover
     (fst (VariantMap literal_search 0 2500 1 [] [] [] (Some [''Q'']) None None [example_table])) =
   Inr [] \<and>
   map_sum id names
     (fst (VariantMap literal_search 0 2500 1 [] [] [] (Some [''Q'']) None None [example_table])) =
   Inr [] \<and>
   fst (VariantMap literal_search 0 2500 1 [] [] [] (Some [''Q'']) None None [example_table]) \<noteq>
   Inl KeyError"
proof -
  have 0: "actual_sample_order (display_samples (Some [''Q'']) example_table) example_table = []"
    by (simp add: actual_sample_order_def display_samples_def example_table_def)
  have 1: "map_sum id z
     (fst (VariantMap literal_search 0 2500 1 [] [] [] (Some [''Q'']) None None [example_table])) =
     Inr []"
    by code_simp
  have 2: "map_sum id hover
     (fst (VariantMap literal_search 0 2500 1 [] [] [] (Some [''Q'']) None None [example_table])) =
     Inr []"
    by code_simp
  have 3: "map_sum id names
     (fst (VariantMap literal_search 0 2500 1 [] [] [] (Some [''Q'']) None None [example_table])) =
     Inr []"
    by code_simp
  from 1 have "fst (VariantMap literal_search 0 2500 1 [] [] [] (Some [''Q'']) None None
      [example_table]) \<noteq> Inl KeyError"
    by auto
  with 0 1 2 3 show ?thesis by simp
qed

text \<open>
  C6. Whatever the filters, and whether the build returns or raises, the table the caller
  passed is afterwards the table it was, and so is every other object that existed before
  the call: the masks, the copy and the \<open>'Group'\<close> column only make and change new objects.
\<close>

theorem input_table_unchanged:
  assumes "df < length h"
  shows "snd (VariantMap re_compile df entries_per_batch batch_no annotation filter_sample filter_file
               sample_order sample_names color_list h) ! df = h ! df \<and>
         take (length h)
           (snd (VariantMap re_compile df entries_per_batch batch_no annotation filter_sample
                   filter_file sample_order sample_names color_list h)) = h"
proof -
  let ?h' = "snd (VariantMap re_compile df entries_per_batch batch_no annotation filter_sample
                    filter_file sample_order sample_names color_list h)"
  have t: "take (length h) ?h' = h" using assms by (rule VariantMap_heap)
  have "?h' ! df = take (length h) ?h' ! df" using assms by simp
  also have "\<dots> = h ! df" by (simp only: t)
  finally show ?thesis using t by simp
qed

text \<open>
  The theorem at the example table, with an annotation, a sample filter and a file filter.
\<close>

theorem input_table_unchanged_witness:
  "(0::nat) < length [example_table] \<and>
   snd (VariantMap literal_search 0 4 2 example_annotation [''S2''] [''Filter1''] None None None
          [example_table]) ! 0 = example_table"
proof -
  have a: "(0::nat) < length [example_table]" by simp
  from input_table_unchanged [OF a] a show ?thesis by simp
qed

text \<open>
  C7. When the build returns, its labels are the reverse of the list that holds, for each
  resolved sample identifier in order, the name \<open>sample_names\<close> maps it to when it is a key
  of \<open>sample_names\<close>, and the identifier itself otherwise; and for the sample order
  \<open>["S1", "S2"]\<close> and \<open>sample_names = {"S1": "Patient A"}\<close> the labels before the reversal
  are \<open>["Patient A", "S2"]\<close>.
\<close>

theorem labels_substituted_then_reversed:
  assumes sub: "subset_all re_compile annotation filter_sample filter_file df h = (Inr p, h1)"
    and run: "fst (VariantMap_init re_compile df entries_per_batch batch_no annotation filter_sample
                    filter_file samples sample_names colors h) = Inr vm"
  shows "names vm =
           rev (map (\<lambda>s. case (case sample_names of None \<Rightarrow> None | Some m \<Rightarrow> m s) of
                           Some v \<Rightarrow> v | None \<Rightarrow> s)
                  (actual_sample_order samples (h1 ! p))) \<and>
         resolve_names [''S1'', ''S2''] (Some [''S1'' \<mapsto> ''Patient A'']) = [''Patient A'', ''S2'']"
proof -
  obtain dcs where "fst (build_matrices entries_per_batch batch_no samples sample_names dcs p h1) =
      Inr vm"
    using run sub
    by (cases "discrete_colorscale markers colors")
       (simp_all add: VariantMap_init_def bind_lift bind_run)
  from build_matrices_names [OF this] show ?thesis
    by (simp add: resolve_names_map)
qed

text \<open>
  The theorem at the example table with \<open>sample_names = {"S1": "Patient A"}\<close>: the build
  returns, and its labels are \<open>["S2", "Patient A"]\<close>.
\<close>

theorem labels_substituted_then_reversed_witness:
  "\<not> isl (fst (VariantMap_init literal_search 0 2500 1 [] [] [] [''S1'', ''S2'']
                 (Some [''S1'' \<mapsto> ''Patient A'']) [''a'', ''b'', ''c'', ''d'', ''e'', ''f'', ''g'']
                 [example_table])) \<and>
   names (projr (fst (VariantMap_init literal_search 0 2500 1 [] [] [] [''S1'', ''S2'']
                 (Some [''S1'' \<mapsto> ''Patient A'']) [''a'', ''b'', ''c'', ''d'', ''e'', ''f'', ''g'']
                 [example_table]))) = [''S2'', ''Patient A'']"
proof -
  let ?r = "fst (VariantMap_init literal_search 0 2500 1 [] [] [] [''S1'', ''S2'']
                 (Some [''S1'' \<mapsto> ''Patient A'']) [''a'', ''b'', ''c'', ''d'', ''e'', ''f'', ''g'']
                 [example_table])"
  have 1: "subset_all literal_search [] [] [] 0 [example_table] = (Inr 0, [example_table])"
    by (rule subset_all_none)
  have ok: "\<not> isl ?r" by code_simp
  then have 2: "?r = Inr (projr ?r)" by simp
  have 3: "actual_sample_order [''S1'', ''S2''] ([example_table] ! 0) = [''S1'', ''S2'']"
    by (simp add: actual_sample_order_def example_table_def)
  from labels_substituted_then_reversed [OF 1 2] ok show ?thesis
    unfolding 3 by simp
qed






text \<open>
  C10. \<open>discrete_colorscale\<close> sorts its markers before normalising: two lists of markers
  that are permutations of each other give the same colour scale, for every list of
  colours.
\<close>

theorem colorscale_permutation_invariant:
  "mset ms1 = mset ms2 \<Longrightarrow> discrete_colorscale ms1 cs = discrete_colorscale ms2 cs"
  by (simp add: discrete_colorscale_def norm_mark_def sort_eq_of_mset [of ms1 ms2])

text \<open>The theorem at the markers \<open>[1, 0]\<close> and \<open>[0, 1]\<close>.\<close>

theorem colorscale_permutation_invariant_witness:
  "mset [1, 0 :: rat] = mset [0, 1] \<and>
   discrete_colorscale [1, 0] [''#fff''] = discrete_colorscale [0, 1] [''#fff''] \<and>
   discrete_colorscale [1, 0] [''#fff''] = Inr [(0, ''#fff''), (1, ''#fff'')]"
proof -
  have a: "mset [1, 0 :: rat] = mset [0, 1]" by simp
  have b: "discrete_colorscale [0, 1] [''#fff''] = Inr [(0, ''#fff''), (1, ''#fff'')]"
    by code_simp
  from colorscale_permutation_invariant [OF a, of "[''#fff'']"] a b show ?thesis by simp
qed

end
